theory Spec2Isabelle
  imports Complex_Main "HOL-Library.Log_Nat" "HOL-Library.Code_Target_Nat"
begin

section \<open>Python values used by \<open>work_hours_final.py\<close>\<close>

subsection \<open>Floating-point numbers\<close>

text \<open>
  A Python \<open>float\<close> is an IEEE-754 binary64 number.  A finite one is kept as the rational
  it denotes; the two infinities and NaN are separate values.  Every arithmetic result is
  rounded to the nearest representable number, ties to even (\<open>rnd\<close>).  The sign of zero
  is not kept: \<open>-0.0\<close> and \<open>0.0\<close> are both \<open>Fin 0\<close>, which only matters for the sign that
  would be printed in front of a zero.
\<close>

datatype pyfloat = Fin rat | PInf | NInf | NaN

definition pow2 :: "int \<Rightarrow> rat" where
  "pow2 e = (if 0 \<le> e then 2 ^ nat e else 1 / 2 ^ nat (- e))"

text \<open>
  \<open>expo p q\<close> is the binary exponent of the positive fraction \<open>p / q\<close>:
  \<open>2 ^ e \<le> p / q < 2 ^ (e + 1)\<close>.  It is the difference \<open>d\<close> of the bit lengths or one less.
\<close>

definition expo :: "int \<Rightarrow> int \<Rightarrow> int" where
  "expo p q =
     (let d = bitlen p - bitlen q
      in if (if 0 \<le> d then q * 2 ^ nat d \<le> p else q \<le> p * 2 ^ nat (- d)) then d else d - 1)"

text \<open>
  \<open>rdiv n d\<close> is the fraction \<open>n / d\<close> (\<open>0 \<le> n\<close>, \<open>0 < d\<close>) rounded to the nearest integer, a
  tie going to the even neighbour.
\<close>

definition rdiv :: "int \<Rightarrow> int \<Rightarrow> int" where
  "rdiv n d =
     (let f = n div d; r = 2 * (n mod d)
      in if r < d then f else if d < r then f + 1 else if even f then f else f + 1)"

text \<open>
  Rounding to binary64.  With \<open>e\<close> the exponent (not below \<open>-1022\<close>, the smallest normal
  one) the result is a multiple \<open>m\<close> of \<open>2 ^ (e - 52)\<close>, which gives 53 significant bits;
  a result that reaches \<open>2 ^ 1024\<close> is an infinity.
\<close>

definition rnd :: "rat \<Rightarrow> pyfloat" where
  "rnd x =
     (let (n, d) = quotient_of x; p = \<bar>n\<bar>
      in if n = 0 then Fin 0
         else let e = max (expo p d) (- 1022); k = 52 - e;
                  m = (if 0 \<le> k then rdiv (p * 2 ^ nat k) d else rdiv p (d * 2 ^ nat (- k)))
              in if 1024 \<le> e \<or> (e = 1023 \<and> m = 2 ^ 53) then (if 0 < n then PInf else NInf)
                 else Fin (of_int (if 0 < n then m else - m) * pow2 (- k)))"

fun fadd :: "pyfloat \<Rightarrow> pyfloat \<Rightarrow> pyfloat" where
  "fadd (Fin a) (Fin b) = rnd (a + b)"
| "fadd NaN _ = NaN"
| "fadd _ NaN = NaN"
| "fadd PInf NInf = NaN"
| "fadd NInf PInf = NaN"
| "fadd PInf _ = PInf"
| "fadd _ PInf = PInf"
| "fadd NInf _ = NInf"
| "fadd _ NInf = NInf"

text \<open>The sign of a value that is not NaN, for products and quotients with an infinity.\<close>

fun fsgn :: "pyfloat \<Rightarrow> int" where
  "fsgn (Fin a) = (if a = 0 then 0 else if 0 < a then 1 else - 1)"
| "fsgn PInf = 1"
| "fsgn NInf = - 1"
| "fsgn NaN = 0"

definition signed_inf :: "int \<Rightarrow> pyfloat" where
  "signed_inf s = (if s = 0 then NaN else if 0 < s then PInf else NInf)"

fun fmul :: "pyfloat \<Rightarrow> pyfloat \<Rightarrow> pyfloat" where
  "fmul (Fin a) (Fin b) = rnd (a * b)"
| "fmul NaN _ = NaN"
| "fmul _ NaN = NaN"
| "fmul a b = signed_inf (fsgn a * fsgn b)"

text \<open>
  \<open>fquot\<close> is the quotient for a divisor that is not zero; \<open>fdiv\<close> is Python's \<open>/\<close> on
  floats, which raises \<open>ZeroDivisionError\<close> whenever the divisor is zero, whatever the
  dividend.
\<close>

fun fquot :: "pyfloat \<Rightarrow> pyfloat \<Rightarrow> pyfloat" where
  "fquot (Fin a) (Fin b) = rnd (a / b)"
| "fquot NaN _ = NaN"
| "fquot _ NaN = NaN"
| "fquot (Fin a) _ = Fin 0"
| "fquot a (Fin b) = signed_inf (fsgn a * fsgn (Fin b))"
| "fquot _ _ = NaN"

datatype error = StopIteration | ZeroDivisionError | ValueError

definition fdiv :: "pyfloat \<Rightarrow> pyfloat \<Rightarrow> error + pyfloat" where
  "fdiv a b = (if b = Fin 0 then Inl ZeroDivisionError else Inr (fquot a b))"

text \<open>Comparisons: every comparison with NaN is false.\<close>

fun flt :: "pyfloat \<Rightarrow> pyfloat \<Rightarrow> bool" where
  "flt (Fin a) (Fin b) = (a < b)"
| "flt NaN _ = False"
| "flt _ NaN = False"
| "flt _ NInf = False"
| "flt NInf _ = True"
| "flt PInf _ = False"
| "flt _ PInf = True"

definition fgt :: "pyfloat \<Rightarrow> pyfloat \<Rightarrow> bool" where
  "fgt a b = flt b a"

definition feq :: "pyfloat \<Rightarrow> pyfloat \<Rightarrow> bool" where
  "feq a b = (a \<noteq> NaN \<and> a = b)"

definition fge :: "pyfloat \<Rightarrow> pyfloat \<Rightarrow> bool" where
  "fge a b = (fgt a b \<or> feq a b)"

text \<open>The builtin \<open>sum\<close>: plain left-to-right addition starting from \<open>0\<close>.\<close>

definition fsum :: "pyfloat list \<Rightarrow> pyfloat" where
  "fsum xs = foldl fadd (Fin 0) xs"

text \<open>The builtin \<open>max\<close>: the first item, replaced by each later item that is greater.\<close>

definition fmax :: "pyfloat list \<Rightarrow> error + pyfloat" where
  "fmax xs = (case xs of [] \<Rightarrow> Inl ValueError
              | x # rest \<Rightarrow> Inr (foldl (\<lambda>m y. if fgt y m then y else m) x rest))"

subsection \<open>Strings\<close>

text \<open>
  A \<open>unicode\<close> object is its list of code points.  The fields of a row are the text of
  the file (\<open>codecs.open\<close> decodes it, the \<open>csv\<close> module hands the fields on re-encoded
  and \<open>unicode(...)\<close> decodes them again), so a field is kept as code points as well.
  \<open>u\<close> embeds an ASCII literal.
\<close>

type_synonym unicode = "nat list"

definition u :: "string \<Rightarrow> unicode" where
  "u s = map of_char s"

definition is_space :: "nat \<Rightarrow> bool" where
  "is_space c = (c = 32 \<or> (9 \<le> c \<and> c \<le> 13))"

definition is_digit :: "nat \<Rightarrow> bool" where
  "is_digit c = (48 \<le> c \<and> c \<le> 57)"

definition strip :: "unicode \<Rightarrow> unicode" where
  "strip s = rev (dropWhile is_space (rev (dropWhile is_space s)))"

definition lower :: "unicode \<Rightarrow> unicode" where
  "lower s = map (\<lambda>c. if 65 \<le> c \<and> c \<le> 90 then c + 32 else c) s"

fun digits_val :: "nat \<Rightarrow> unicode \<Rightarrow> nat" where
  "digits_val acc [] = acc"
| "digits_val acc (c # cs) = digits_val (10 * acc + (c - 48)) cs"

definition pow10 :: "int \<Rightarrow> rat" where
  "pow10 e = (if 0 \<le> e then 10 ^ nat e else 1 / 10 ^ nat (- e))"

text \<open>An optional sign in front: \<open>45\<close> is \<open>-\<close>, \<open>43\<close> is \<open>+\<close>.\<close>

definition split_sign :: "unicode \<Rightarrow> bool \<times> unicode" where
  "split_sign s = (case s of [] \<Rightarrow> (False, [])
     | c # cs \<Rightarrow> if c = 45 then (True, cs) else if c = 43 then (False, cs) else (False, s))"

text \<open>What may follow the mantissa: nothing, or \<open>e\<close>/\<open>E\<close>, an optional sign and digits.\<close>

definition parse_exponent :: "unicode \<Rightarrow> int option" where
  "parse_exponent s = (case s of [] \<Rightarrow> Some 0
     | c # cs \<Rightarrow>
        if c = 101 \<or> c = 69 then
          (let (neg, ds) = split_sign cs
           in if ds \<noteq> [] \<and> list_all is_digit ds
              then Some (if neg then - int (digits_val 0 ds) else int (digits_val 0 ds))
              else None)
        else None)"

text \<open>A decimal numeral: digits, an optional point (\<open>46\<close>) with digits, an optional exponent;
  at least one digit before or after the point.\<close>

definition parse_decimal :: "unicode \<Rightarrow> rat option" where
  "parse_decimal s =
     (let ip = takeWhile is_digit s; r1 = dropWhile is_digit s;
          point = (r1 \<noteq> [] \<and> hd r1 = 46);
          fp = (if point then takeWhile is_digit (tl r1) else []);
          r2 = (if point then dropWhile is_digit (tl r1) else r1)
      in if ip = [] \<and> fp = [] then None
         else case parse_exponent r2 of None \<Rightarrow> None
              | Some e \<Rightarrow> Some (of_nat (digits_val 0 (ip @ fp)) * pow10 (e - int (length fp))))"

text \<open>
  The builtin \<open>float\<close> applied to a string (CPython 2.7): surrounding whitespace is
  dropped; after an optional sign come \<open>inf\<close>, \<open>infinity\<close> or \<open>nan\<close> in any letter case,
  or a decimal numeral, whose value is rounded to binary64.  \<open>None\<close> is \<open>ValueError\<close>.
\<close>

definition py_float :: "unicode \<Rightarrow> pyfloat option" where
  "py_float s =
     (let (neg, r) = split_sign (strip s)
      in if lower r = u ''inf'' \<or> lower r = u ''infinity'' then Some (if neg then NInf else PInf)
         else if lower r = u ''nan'' then Some NaN
         else case parse_decimal r of None \<Rightarrow> None
              | Some q \<Rightarrow> Some (rnd (if neg then - q else q)))"

text \<open>Decimal digits of a natural number, as \<open>{}\<close> and \<open>{:d}\<close> print an \<open>int\<close>.\<close>

fun show_nat :: "nat \<Rightarrow> unicode" where
  "show_nat n = (if n < 10 then [48 + n] else show_nat (n div 10) @ [48 + n mod 10])"

text \<open>
  The format \<open>{:.1f}\<close>: the exact value of the float, correctly rounded to one decimal
  (ties to even), with a minus sign for a negative value.
\<close>

fun fmt1 :: "pyfloat \<Rightarrow> unicode" where
  "fmt1 (Fin x) =
     (let (n, d) = quotient_of x; t = nat (rdiv (\<bar>n\<bar> * 10) d)
      in (if n < 0 then u ''-'' else []) @ show_nat (t div 10) @ u ''.'' @ show_nat (t mod 10))"
| "fmt1 PInf = u ''inf''"
| "fmt1 NInf = u ''-inf''"
| "fmt1 NaN = u ''nan''"

section \<open>The script\<close>

subsection \<open>Input, output and outcome\<close>

text \<open>
  The input is what \<open>work_hours_data.csv\<close> holds: \<open>None\<close> when the file does not exist,
  otherwise the rows that \<open>csv.reader\<close> yields, each a list of fields.  A record is the
  tuple \<open>(title, parent, hours)\<close> appended at line 32.
\<close>

type_synonym row = "unicode list"
type_synonym entry = "unicode \<times> unicode \<times> pyfloat"

text \<open>
  Whatever the script prints or asks of the plotting library is an event, in the order
  of the calls, with the values passed.  Plotting calls whose arguments are constants
  (axis titles, grid, layout) are left out.
\<close>

text \<open>
  \<^item> \<open>PrintReading\<close>: line 21; \<open>PrintSkipped row\<close>: line 34, the row being the format
    argument; \<open>PrintMissing\<close>: lines 36 to 39; \<open>PrintNoData\<close>: line 49;
    \<open>PrintLoaded n\<close>: line 52.
  \<^item> \<open>Bar i height bottom colour\<close>: line 92, with the index into the palette;
    \<open>SegLabel i y text\<close>: line 104; \<open>TopLabel i y text\<close>: line 123; \<open>Ylim top\<close>: line 133;
    \<open>TotalBox text\<close>: line 137; \<open>SaveFig\<close>: line 146.
  \<^item> \<open>PrintHeader text\<close>: lines 150 to 154, with the text of line 153;
    \<open>PrintParent rank parent total percent\<close>: line 159;
    \<open>PrintTask title hours percent\<close>: line 168;
    \<open>PrintOther count hours percent\<close>: line 174; \<open>PrintBlank\<close>: line 175;
    \<open>PrintFooter\<close>: lines 177 and 178.
\<close>

datatype event =
    PrintReading
  | PrintSkipped row
  | PrintMissing
  | PrintNoData
  | PrintLoaded nat
  | Bar nat pyfloat pyfloat nat
  | SegLabel nat pyfloat unicode
  | TopLabel nat pyfloat unicode
  | Ylim pyfloat
  | TotalBox unicode
  | SaveFig
  | PrintHeader unicode
  | PrintParent nat unicode pyfloat pyfloat
  | PrintTask unicode pyfloat pyfloat
  | PrintOther nat pyfloat pyfloat
  | PrintBlank
  | PrintFooter

text \<open>How a run ends: it reaches the last line, calls \<open>exit\<close>, or dies of an exception.\<close>

datatype outcome = Completed | Exit nat | Uncaught error

subsection \<open>Loading (lines 17 to 41)\<close>

text \<open>The loop of lines 26 to 34, with the list \<open>data\<close> and the output so far.\<close>

fun read_rows :: "row list \<Rightarrow> entry list \<Rightarrow> event list \<Rightarrow> entry list \<times> event list" where
  "read_rows [] data out = (data, out)"
| "read_rows (row # rest) data out =
     (if 3 \<le> length row then
        (case py_float (row ! 2) of
           Some hours \<Rightarrow> read_rows rest (data @ [(row ! 0, row ! 1, hours)]) out
         | None \<Rightarrow> read_rows rest data (out @ [PrintSkipped row]))
      else read_rows rest data out)"

text \<open>\<open>next(reader)\<close> at line 25 raises \<open>StopIteration\<close> when the reader has no row.\<close>

definition read_data_from_csv :: "row list option \<Rightarrow> event list \<times> (error + entry list)" where
  "read_data_from_csv file =
     (case file of
        None \<Rightarrow> ([PrintMissing], Inr [])
      | Some rows \<Rightarrow>
         (case rows of
            [] \<Rightarrow> ([PrintReading], Inl StopIteration)
          | header # rest \<Rightarrow>
             (let (data, out) = read_rows rest [] [PrintReading] in (out, Inr data))))"

subsection \<open>Aggregation (lines 55 to 60)\<close>

text \<open>
  A dictionary is the list of its items in order of first insertion.  (CPython 2 iterates
  a dictionary in the order of the hashes of its keys; the order matters only where
  totals tie in a ranking and for the rounding of a sum of more than two floats.)
  \<open>add_hours\<close> is
  \<open>d[k] += hours\<close> on a \<open>defaultdict(float)\<close>: a missing key starts from \<open>0.0\<close>.
  \<open>add_task\<close> is \<open>parent_data[parent][title] += hours\<close> on the nested dictionary.
\<close>

type_synonym totals = "(unicode \<times> pyfloat) list"

fun add_hours :: "unicode \<Rightarrow> pyfloat \<Rightarrow> totals \<Rightarrow> totals" where
  "add_hours k hours [] = [(k, fadd (Fin 0) hours)]"
| "add_hours k hours ((k', v) # d) =
     (if k' = k then (k', fadd v hours) # d else (k', v) # add_hours k hours d)"

fun add_task :: "unicode \<Rightarrow> unicode \<Rightarrow> pyfloat \<Rightarrow> (unicode \<times> totals) list
    \<Rightarrow> (unicode \<times> totals) list" where
  "add_task parent title hours [] = [(parent, add_hours title hours [])]"
| "add_task parent title hours ((p, tasks) # d) =
     (if p = parent then (p, add_hours title hours tasks) # d
      else (p, tasks) # add_task parent title hours d)"

fun aggregate :: "entry list \<Rightarrow> (unicode \<times> totals) list \<Rightarrow> totals
    \<Rightarrow> (unicode \<times> totals) list \<times> totals" where
  "aggregate [] parent_data parent_totals = (parent_data, parent_totals)"
| "aggregate ((title, parent, hours) # rest) parent_data parent_totals =
     aggregate rest (add_task parent title hours parent_data)
       (add_hours parent hours parent_totals)"

definition parent_data_of :: "entry list \<Rightarrow> (unicode \<times> totals) list" where
  "parent_data_of data = fst (aggregate data [] [])"

definition parent_totals_of :: "entry list \<Rightarrow> totals" where
  "parent_totals_of data = snd (aggregate data [] [])"

text \<open>Reading \<open>d[k]\<close>; the script only reads keys that are present.\<close>

definition get_total :: "totals \<Rightarrow> unicode \<Rightarrow> pyfloat" where
  "get_total d k = (case map_of d k of Some v \<Rightarrow> v | None \<Rightarrow> Fin 0)"

definition get_tasks :: "(unicode \<times> totals) list \<Rightarrow> unicode \<Rightarrow> totals" where
  "get_tasks d k = (case map_of d k of Some v \<Rightarrow> v | None \<Rightarrow> [])"

subsection \<open>Ranking (lines 63, 83 and 163)\<close>

text \<open>
  \<open>sorted(xs, key=key, reverse=True)\<close>: a stable sort into descending order of the keys,
  which compares keys with \<open><\<close> only.  The result of \<open>list.sort\<close> is this one whenever
  \<open><\<close> orders the keys, that is when no key is NaN.
\<close>

fun insert_desc :: "('a \<Rightarrow> pyfloat) \<Rightarrow> 'a \<Rightarrow> 'a list \<Rightarrow> 'a list" where
  "insert_desc key x [] = [x]"
| "insert_desc key x (y # ys) =
     (if flt (key x) (key y) then y # insert_desc key x ys else x # y # ys)"

definition sorted_rev :: "('a \<Rightarrow> pyfloat) \<Rightarrow> 'a list \<Rightarrow> 'a list" where
  "sorted_rev key xs = foldr (insert_desc key) xs []"

definition sorted_parents :: "totals \<Rightarrow> unicode list" where
  "sorted_parents parent_totals = sorted_rev (get_total parent_totals) (map fst parent_totals)"

definition sorted_tasks :: "totals \<Rightarrow> (unicode \<times> pyfloat) list" where
  "sorted_tasks tasks = sorted_rev snd tasks"

subsection \<open>Running statements in sequence\<close>

text \<open>
  A block of statements yields the events it produced and the exception that stopped
  it, if any.  \<open>andthen a b\<close> runs \<open>b\<close> after \<open>a\<close> unless \<open>a\<close> raised.
\<close>

type_synonym block = "event list \<times> error option"

definition andthen :: "block \<Rightarrow> block \<Rightarrow> block" where
  "andthen a b = (case snd a of Some e \<Rightarrow> a | None \<Rightarrow> (fst a @ fst b, snd b))"

text \<open>\<open>(hours / whole) * 100\<close>, as at lines 89, 123, 158, 166 and 173.\<close>

definition percent_of :: "pyfloat \<Rightarrow> pyfloat \<Rightarrow> error + pyfloat" where
  "percent_of hours whole =
     (case fdiv hours whole of Inl e \<Rightarrow> Inl e | Inr q \<Rightarrow> Inr (fmul q (Fin 100)))"

subsection \<open>The stacked bars (lines 78 to 109)\<close>

definition short_title :: "unicode \<Rightarrow> unicode" where
  "short_title title = (if 8 < length title then take 6 title @ u ''...'' else title)"

text \<open>The format of line 102; \<open>10\<close> is the newline.\<close>

definition label_text :: "unicode \<Rightarrow> pyfloat \<Rightarrow> pyfloat \<Rightarrow> unicode" where
  "label_text title hours percentage =
     short_title title @ u ''-'' @ fmt1 hours @ u ''h'' @ [10] @ fmt1 percentage @ u ''%''"

text \<open>The condition of line 97; the literal \<open>0.03\<close> is the float nearest to \<open>3/100\<close>.\<close>

definition labelled :: "pyfloat \<Rightarrow> pyfloat \<Rightarrow> pyfloat \<Rightarrow> bool" where
  "labelled hours parent_total percentage =
     (fgt hours (fmul parent_total (rnd (3 / 100))) \<and> fgt percentage (Fin 3))"

text \<open>One turn of the inner loop, lines 89 to 106.\<close>

definition segment :: "nat \<Rightarrow> pyfloat \<Rightarrow> pyfloat \<Rightarrow> nat \<Rightarrow> unicode \<times> pyfloat
    \<Rightarrow> error + event list" where
  "segment i parent_total bottom color_idx task =
     (case task of (title, hours) \<Rightarrow>
        (case percent_of hours parent_total of
           Inl e \<Rightarrow> Inl e
         | Inr percentage \<Rightarrow>
            Inr (Bar i hours bottom (color_idx mod 20) #
                 (if labelled hours parent_total percentage
                  then [SegLabel i (fadd bottom (fquot hours (Fin 2)))
                          (label_text title hours percentage)]
                  else []))))"

fun stack :: "nat \<Rightarrow> pyfloat \<Rightarrow> pyfloat \<Rightarrow> nat \<Rightarrow> (unicode \<times> pyfloat) list \<Rightarrow> block" where
  "stack i parent_total bottom color_idx [] = ([], None)"
| "stack i parent_total bottom color_idx (task # rest) =
     (case segment i parent_total bottom color_idx task of
        Inl e \<Rightarrow> ([], Some e)
      | Inr es \<Rightarrow>
         andthen (es, None)
           (stack i parent_total (fadd bottom (snd task)) (color_idx + 1) rest))"

fun bars :: "nat \<Rightarrow> unicode list \<Rightarrow> (unicode \<times> totals) list \<Rightarrow> totals \<Rightarrow> block" where
  "bars i [] parent_data parent_totals = ([], None)"
| "bars i (parent # rest) parent_data parent_totals =
     andthen
       (stack i (get_total parent_totals parent) (Fin 0) 0
          (sorted_tasks (get_tasks parent_data parent)))
       (bars (i + 1) rest parent_data parent_totals)"

subsection \<open>Totals on the chart (lines 121 to 146)\<close>

definition top_label_text :: "pyfloat \<Rightarrow> pyfloat \<Rightarrow> unicode" where
  "top_label_text total_hours percentage =
     fmt1 total_hours @ u ''h'' @ [10] @ u ''('' @ fmt1 percentage @ u ''%)''"

fun top_labels :: "nat \<Rightarrow> unicode list \<Rightarrow> totals \<Rightarrow> block" where
  "top_labels i [] parent_totals = ([], None)"
| "top_labels i (parent # rest) parent_totals =
     (let total_hours = get_total parent_totals parent
      in case percent_of total_hours (fsum (map snd parent_totals)) of
           Inl e \<Rightarrow> ([], Some e)
         | Inr percentage \<Rightarrow>
            andthen
              ([TopLabel i (fadd total_hours (Fin 15)) (top_label_text total_hours percentage)],
               None)
              (top_labels (i + 1) rest parent_totals))"

text \<open>The text of lines 137 and 153: five characters, a colon, the total and two more.\<close>

definition total_text :: "pyfloat \<Rightarrow> unicode" where
  "total_text total_hours =
     [39033, 30446, 24635, 24037, 26102] @ u '': '' @ fmt1 total_hours @ [23567, 26102]"

subsection \<open>The report (lines 150 to 178)\<close>

text \<open>The loop of lines 165 to 168, over the first five tasks.\<close>

fun report_tasks :: "(unicode \<times> pyfloat) list \<Rightarrow> pyfloat \<Rightarrow> block" where
  "report_tasks [] ptotal = ([], None)"
| "report_tasks ((title, hours) # rest) ptotal =
     (case percent_of hours ptotal of
        Inl e \<Rightarrow> ([], Some e)
      | Inr percentage \<Rightarrow>
         andthen
           (if fge percentage (Fin 1) then [PrintTask title hours percentage] else [], None)
           (report_tasks rest ptotal))"

text \<open>Lines 170 to 174.\<close>

definition report_other :: "(unicode \<times> pyfloat) list \<Rightarrow> pyfloat \<Rightarrow> block" where
  "report_other tasks ptotal =
     (if 5 < length tasks then
        (let other_hours = fsum (map snd (drop 5 tasks))
         in if fgt other_hours (Fin 0) then
              (case percent_of other_hours ptotal of
                 Inl e \<Rightarrow> ([], Some e)
               | Inr other_percent \<Rightarrow>
                  ([PrintOther (length tasks - 5) other_hours other_percent], None))
            else ([], None))
      else ([], None))"

text \<open>One turn of the loop of line 156; \<open>ptotal\<close> is the script's \<open>total\<close>.\<close>

definition report_parent :: "nat \<Rightarrow> unicode \<Rightarrow> totals \<Rightarrow> pyfloat \<Rightarrow> pyfloat \<Rightarrow> block" where
  "report_parent i parent tasks ptotal total_hours =
     (case percent_of ptotal total_hours of
        Inl e \<Rightarrow> ([], Some e)
      | Inr parent_percent \<Rightarrow>
         andthen ([PrintParent (i + 1) parent ptotal parent_percent], None)
           (andthen (report_tasks (take 5 (sorted_tasks tasks)) ptotal)
              (andthen (report_other (sorted_tasks tasks) ptotal) ([PrintBlank], None))))"

fun report_parents :: "nat \<Rightarrow> unicode list \<Rightarrow> (unicode \<times> totals) list \<Rightarrow> totals \<Rightarrow> pyfloat
    \<Rightarrow> block" where
  "report_parents i [] parent_data parent_totals total_hours = ([], None)"
| "report_parents i (parent # rest) parent_data parent_totals total_hours =
     andthen
       (report_parent i parent (get_tasks parent_data parent)
          (get_total parent_totals parent) total_hours)
       (report_parents (i + 1) rest parent_data parent_totals total_hours)"

text \<open>The printed text of the lines 159, 168 and 174.\<close>

fun line_text :: "event \<Rightarrow> unicode option" where
  "line_text (PrintParent rank parent ptotal percent) =
     Some (show_nat rank @ u ''. '' @ parent @ u '' - '' @ fmt1 ptotal @ [23567, 26102]
           @ u '' ('' @ fmt1 percent @ u ''%)'')"
| "line_text (PrintTask title hours percent) =
     Some (u ''   '' @ [9492, 9472] @ u '' '' @ title @ u '': '' @ fmt1 hours @ [23567, 26102]
           @ u '' ('' @ fmt1 percent @ u ''%)'')"
| "line_text (PrintOther n hours percent) =
     Some (u ''   '' @ [9492, 9472] @ u '' '' @ [20854, 20182] @ show_nat n @ [39033] @ u '': ''
           @ fmt1 hours @ [23567, 26102] @ u '' ('' @ fmt1 percent @ u ''%)'')"
| "line_text (PrintHeader text) = Some text"
| "line_text PrintBlank = Some []"
| "line_text _ = None"

subsection \<open>The whole script\<close>

text \<open>Everything after line 52, for the loaded \<open>data\<close>.\<close>

definition chart_and_report :: "entry list \<Rightarrow> block" where
  "chart_and_report data =
     (let parent_data = parent_data_of data;
          parent_totals = parent_totals_of data;
          parents = sorted_parents parent_totals;
          total_hours = fsum (map snd parent_totals)
      in andthen (bars 0 parents parent_data parent_totals)
           (andthen (top_labels 0 parents parent_totals)
              (case fmax (map snd parent_totals) of
                 Inl e \<Rightarrow> ([], Some e)
               | Inr max_height \<Rightarrow>
                  andthen
                    ([Ylim (fmul max_height (rnd (23 / 20))), TotalBox (total_text total_hours),
                      SaveFig, PrintHeader (total_text total_hours)], None)
                    (andthen
                       (report_parents 0 parents parent_data parent_totals total_hours)
                       ([PrintFooter], None)))))"

definition main :: "row list option \<Rightarrow> event list \<times> outcome" where
  "main file =
     (case read_data_from_csv file of
        (out, Inl e) \<Rightarrow> (out, Uncaught e)
      | (out, Inr data) \<Rightarrow>
         if data = [] then (out @ [PrintNoData], Exit 1)
         else (case chart_and_report data of
                 (es, Some e) \<Rightarrow> (out @ PrintLoaded (length data) # es, Uncaught e)
               | (es, None) \<Rightarrow> (out @ PrintLoaded (length data) # es, Completed)))"

subsection \<open>Inputs used as examples\<close>

definition header_row :: row where
  "header_row = [u ''title'', u ''parent'', u ''hours'']"

text \<open>The three rows of the scenario of the specification, and what is loaded from them.\<close>

definition scenario_rows :: "row list" where
  "scenario_rows = [header_row, [u ''A'', u ''Dev'', u ''100''], [u ''B'', u ''Dev'', u ''50''],
     [u ''C'', u ''QA'', u ''30'']]"

definition scenario_data :: "entry list" where
  "scenario_data = [(u ''A'', u ''Dev'', Fin 100), (u ''B'', u ''Dev'', Fin 50),
     (u ''C'', u ''QA'', Fin 30)]"

text \<open>A file in which the only record of the parent \<open>QA\<close> has zero hours.\<close>

definition zero_parent_rows :: "row list" where
  "zero_parent_rows = [header_row, [u ''A'', u ''Dev'', u ''5''], [u ''B'', u ''QA'', u ''0'']]"

text \<open>Rows whose hours field is a negative number, an infinity and NaN.\<close>

definition unchecked_rows :: "row list" where
  "unchecked_rows = [header_row, [u ''A'', u ''Dev'', u ''-5''], [u ''B'', u ''Dev'', u ''inf''],
     [u ''C'', u ''QA'', u ''nan'']]"

text \<open>Two parents, the first with a NaN total.\<close>

definition nan_rows :: "row list" where
  "nan_rows = [header_row, [u ''A'', u ''P'', u ''nan''], [u ''B'', u ''Q'', u ''5'']]"

definition nan_data :: "entry list" where
  "nan_data = [(u ''A'', u ''P'', NaN), (u ''B'', u ''Q'', Fin 5)]"

text \<open>A parent with a task of 1 hour out of 1001.\<close>

definition small_task_tasks :: totals where
  "small_task_tasks = [(u ''B'', Fin 1), (u ''A'', Fin 1000)]"

text \<open>Hours whose sums are not all binary64 numbers: \<open>10 ^ 16 + 1\<close> is not.\<close>

definition rounding_rows :: "row list" where
  "rounding_rows = [header_row, [u ''A'', u ''P'', u ''10000000000000000''],
     [u ''B'', u ''Q'', u ''1''], [u ''C'', u ''Q'', u ''1''], [u ''D'', u ''P'', u ''1'']]"

definition rounding_data :: "entry list" where
  "rounding_data = [(u ''A'', u ''P'', Fin 10000000000000000), (u ''B'', u ''Q'', Fin 1),
     (u ''C'', u ''Q'', Fin 1), (u ''D'', u ''P'', Fin 1)]"

section \<open>Properties\<close>

subsection \<open>Sequencing\<close>

lemma andthen_ok [simp]: "andthen (es, None) b = (es @ fst b, snd b)"
  by (simp add: andthen_def)

lemma andthen_raised [simp]: "andthen (es, Some e) b = (es, Some e)"
  by (simp add: andthen_def)

lemma percent_of_nonzero:
  "whole \<noteq> Fin 0 \<Longrightarrow> percent_of hours whole = Inr (fmul (fquot hours whole) (Fin 100))"
  by (simp add: percent_of_def fdiv_def)

subsection \<open>Division by zero\<close>

lemma percent_of_zero: "percent_of hours (Fin 0) = Inl ZeroDivisionError"
  by (simp add: percent_of_def fdiv_def)

lemma zero_parent_load:
  "read_data_from_csv (Some zero_parent_rows)
     = ([PrintReading], Inr [(u ''A'', u ''Dev'', Fin 5), (u ''B'', u ''QA'', Fin 0)])"
  by code_simp

lemma zero_parent_totals:
  "parent_totals_of [(u ''A'', u ''Dev'', Fin 5), (u ''B'', u ''QA'', Fin 0)]
     = [(u ''Dev'', Fin 5), (u ''QA'', Fin 0)]"
  by code_simp

lemma zero_parent_main:
  "main (Some zero_parent_rows)
     = ([PrintReading, PrintLoaded 2, Bar 0 (Fin 5) (Fin 0) 0,
         SegLabel 0 (Fin (5 / 2)) (u ''A-5.0h'' @ [10] @ u ''100.0%'')],
        Uncaught ZeroDivisionError)"
  by code_simp

text \<open>
  Claim C8.  No percentage is guarded against a zero divisor: the percentage of a segment
  (line 89, which also feeds the label condition of line 97), of a task in the report
  (line 166) and of a parent against the grand total (line 158) raise
  \<open>ZeroDivisionError\<close> when the divisor is \<open>0.0\<close>.  The branch is reachable: the file
  \<open>zero_parent_rows\<close> loads, its parent \<open>QA\<close> has the total \<open>0.0\<close>, and the run dies of
  \<open>ZeroDivisionError\<close>.
\<close>

theorem zero_total_division_reachable:
  "(\<forall>hours. percent_of hours (Fin 0) = Inl ZeroDivisionError)
   \<and> (\<forall>i bottom color_idx task.
         segment i (Fin 0) bottom color_idx task = Inl ZeroDivisionError)
   \<and> (\<forall>title hours rest.
         report_tasks ((title, hours) # rest) (Fin 0) = ([], Some ZeroDivisionError))
   \<and> (\<forall>i parent tasks ptotal.
         report_parent i parent tasks ptotal (Fin 0) = ([], Some ZeroDivisionError))
   \<and> read_data_from_csv (Some zero_parent_rows)
       = ([PrintReading], Inr [(u ''A'', u ''Dev'', Fin 5), (u ''B'', u ''QA'', Fin 0)])
   \<and> parent_totals_of [(u ''A'', u ''Dev'', Fin 5), (u ''B'', u ''QA'', Fin 0)]
       = [(u ''Dev'', Fin 5), (u ''QA'', Fin 0)]
   \<and> snd (main (Some zero_parent_rows)) = Uncaught ZeroDivisionError"
proof -
  have seg: "segment i (Fin 0) bottom color_idx task = Inl ZeroDivisionError"
    for i bottom color_idx task
    by (cases task) (simp add: segment_def percent_of_zero)
  have rt: "report_tasks ((title, hours) # rest) (Fin 0) = ([], Some ZeroDivisionError)"
    for title hours rest
    by (simp add: percent_of_zero)
  have rp: "report_parent i parent tasks ptotal (Fin 0) = ([], Some ZeroDivisionError)"
    for i parent tasks ptotal
    by (simp add: report_parent_def percent_of_zero)
  show ?thesis
    using seg rt rp zero_parent_load zero_parent_totals zero_parent_main
    by (simp add: percent_of_zero)
qed

text \<open>
  Claim C3, at the input that breaks it.  The file with the header and the single row
  \<open>A,Dev,0\<close> loads one valid record, and the run does not reach its end: it prints that one
  record was loaded and dies of \<open>ZeroDivisionError\<close> at line 89, before anything is drawn
  or saved.
\<close>

theorem zero_hours_run_fails:
  "main (Some [header_row, [u ''A'', u ''Dev'', u ''0'']])
     = ([PrintReading, PrintLoaded 1], Uncaught ZeroDivisionError)"
  by code_simp

subsection \<open>The empty file\<close>

text \<open>
  Claim C9.  For a file that exists and has no row, \<open>next(reader)\<close> raises
  \<open>StopIteration\<close>: the loader returns nothing and the run dies of the exception.  The
  loader returns a list exactly when the file is absent or has at least a header row.
\<close>

theorem empty_file_raises_StopIteration:
  "read_data_from_csv (Some []) = ([PrintReading], Inl StopIteration)
   \<and> main (Some []) = ([PrintReading], Uncaught StopIteration)
   \<and> (\<forall>file. (\<exists>data. snd (read_data_from_csv file) = Inr data)
         = (file = None \<or> (\<exists>header rest. file = Some (header # rest))))"
  by (auto simp: read_data_from_csv_def main_def split: option.splits list.splits prod.splits)

subsection \<open>The loader\<close>

text \<open>The loop keeps, in file order, the rows that have three fields and a float.\<close>

lemma read_rows_acc:
  "read_rows rows data out =
     (data @ List.map_filter
         (\<lambda>row. if 3 \<le> length row
                  then map_option (\<lambda>hours. (row ! 0, row ! 1, hours)) (py_float (row ! 2))
                  else None) rows,
      out @ map PrintSkipped (filter (\<lambda>row. 3 \<le> length row \<and> py_float (row ! 2) = None) rows))"
proof (induction rows arbitrary: data out)
  case Nil
  show ?case by (simp add: List.map_filter_simps)
next
  case (Cons row rows)
  show ?case
    by (cases "py_float (row ! 2)") (simp_all add: Cons.IH List.map_filter_simps)
qed

lemma read_rows_append:
  "read_rows (pre @ post) data out =
     read_rows post (fst (read_rows pre data out)) (snd (read_rows pre data out))"
  by (induction pre arbitrary: data out) (simp_all split: option.splits)

text \<open>
  When no record is loaded the script prints its diagnostic and calls \<open>exit(1)\<close>; nothing
  is drawn or saved.
\<close>

lemma no_records_exit:
  assumes "snd (read_data_from_csv file) = Inr []"
  shows "snd (main file) = Exit 1 \<and> PrintNoData \<in> set (fst (main file))
    \<and> SaveFig \<notin> set (fst (main file))"
proof (cases "file")
  case None
  then show ?thesis by (simp add: main_def read_data_from_csv_def)
next
  case (Some rows)
  with assms obtain header rest where rows: "rows = header # rest"
    by (cases rows) (simp_all add: read_data_from_csv_def)
  from assms show ?thesis
    unfolding Some rows
    by (auto simp: main_def read_data_from_csv_def read_rows_acc)
qed

text \<open>
  Claim C4 fails as stated: the loader keeps whatever \<open>float\<close> returns.  From the rows
  \<open>A,Dev,-5\<close>, \<open>B,Dev,inf\<close> and \<open>C,QA,nan\<close> it produces three records without a diagnostic,
  with the hours \<open>-5.0\<close> (which is below zero), \<open>inf\<close> and \<open>nan\<close>.
\<close>

theorem loader_keeps_negative_inf_nan:
  "read_data_from_csv (Some unchecked_rows)
     = ([PrintReading],
        Inr [(u ''A'', u ''Dev'', Fin (- 5)), (u ''B'', u ''Dev'', PInf), (u ''C'', u ''QA'', NaN)])
   \<and> flt (Fin (- 5)) (Fin 0)"
proof -
  have "read_data_from_csv (Some unchecked_rows)
     = ([PrintReading],
        Inr [(u ''A'', u ''Dev'', Fin (- 5)), (u ''B'', u ''Dev'', PInf), (u ''C'', u ''QA'', NaN)])"
    by code_simp
  then show ?thesis by simp
qed

text \<open>
  Claim C4, amended.  For a file with a header, the records produced are, in file order,
  those of the rows that have at least three fields and whose third field \<open>float\<close>
  accepts, the hours being the float returned (any float: negative numbers, infinities
  and NaN included); the rows with at least three fields whose third field \<open>float\<close>
  rejects are discarded, each with the diagnostic of line 34.
\<close>

theorem loader_records_are_float_of_third_field:
  "read_data_from_csv (Some (header # rows))
     = (PrintReading #
          map PrintSkipped (filter (\<lambda>row. 3 \<le> length row \<and> py_float (row ! 2) = None) rows),
        Inr (List.map_filter
          (\<lambda>row. if 3 \<le> length row
                   then map_option (\<lambda>hours. (row ! 0, row ! 1, hours)) (py_float (row ! 2))
                   else None) rows))"
  by (simp add: read_data_from_csv_def read_rows_acc)

text \<open>
  Claim C5.  Whatever rows come before and after it, a row with at least three fields
  whose hours field does not parse adds nothing to \<open>data\<close> and exactly the diagnostic
  \<open>PrintSkipped row\<close> to the output, and a row with fewer than three fields adds nothing
  to either; in both cases the loop goes on with the rows that follow.
\<close>

theorem malformed_and_short_rows_are_skipped:
  "(3 \<le> length row \<and> py_float (row ! 2) = None \<longrightarrow>
      read_rows (pre @ row # post) data out
        = read_rows post (fst (read_rows pre data out))
            (snd (read_rows pre data out) @ [PrintSkipped row]))
   \<and> (length row < 3 \<longrightarrow>
      read_rows (pre @ row # post) data out
        = read_rows post (fst (read_rows pre data out)) (snd (read_rows pre data out)))"
  by (simp add: read_rows_append)

text \<open>
  Witness for C5: between the rows \<open>A,Dev,1\<close> and \<open>B,Dev,2\<close>, the row \<open>X,Dev,abc\<close> is
  skipped with its diagnostic and the row \<open>X,Dev\<close> is skipped without one.
\<close>

theorem malformed_and_short_rows_are_skipped_witness:
  "3 \<le> length [u ''X'', u ''Dev'', u ''abc'']
   \<and> py_float ([u ''X'', u ''Dev'', u ''abc''] ! 2) = None
   \<and> read_rows ([[u ''A'', u ''Dev'', u ''1'']] @ [u ''X'', u ''Dev'', u ''abc'']
          # [[u ''B'', u ''Dev'', u ''2'']]) [] [PrintReading]
       = ([(u ''A'', u ''Dev'', Fin 1), (u ''B'', u ''Dev'', Fin 2)],
          [PrintReading, PrintSkipped [u ''X'', u ''Dev'', u ''abc'']])
   \<and> length [u ''X'', u ''Dev''] < 3
   \<and> read_rows ([[u ''A'', u ''Dev'', u ''1'']] @ [u ''X'', u ''Dev'']
          # [[u ''B'', u ''Dev'', u ''2'']]) [] [PrintReading]
       = ([(u ''A'', u ''Dev'', Fin 1), (u ''B'', u ''Dev'', Fin 2)], [PrintReading])"
proof -
  have len: "3 \<le> length [u ''X'', u ''Dev'', u ''abc'']" "length [u ''X'', u ''Dev''] < 3"
    by simp_all
  have bad: "py_float ([u ''X'', u ''Dev'', u ''abc''] ! 2) = None"
    by code_simp
  have pre: "read_rows [[u ''A'', u ''Dev'', u ''1'']] [] [PrintReading]
      = ([(u ''A'', u ''Dev'', Fin 1)], [PrintReading])"
    by code_simp
  have post1: "read_rows [[u ''B'', u ''Dev'', u ''2'']] [(u ''A'', u ''Dev'', Fin 1)]
        ([PrintReading] @ [PrintSkipped [u ''X'', u ''Dev'', u ''abc'']])
      = ([(u ''A'', u ''Dev'', Fin 1), (u ''B'', u ''Dev'', Fin 2)],
         [PrintReading, PrintSkipped [u ''X'', u ''Dev'', u ''abc'']])"
    by code_simp
  have post2: "read_rows [[u ''B'', u ''Dev'', u ''2'']] [(u ''A'', u ''Dev'', Fin 1)]
        [PrintReading]
      = ([(u ''A'', u ''Dev'', Fin 1), (u ''B'', u ''Dev'', Fin 2)], [PrintReading])"
    by code_simp
  note t = malformed_and_short_rows_are_skipped
      [of _ "[[u ''A'', u ''Dev'', u ''1'']]" "[[u ''B'', u ''Dev'', u ''2'']]" "[]"
      "[PrintReading]", unfolded pre fst_conv snd_conv]
  from t [of "[u ''X'', u ''Dev'', u ''abc'']"] len(1) bad
  have one: "read_rows ([[u ''A'', u ''Dev'', u ''1'']] @ [u ''X'', u ''Dev'', u ''abc'']
          # [[u ''B'', u ''Dev'', u ''2'']]) [] [PrintReading]
       = ([(u ''A'', u ''Dev'', Fin 1), (u ''B'', u ''Dev'', Fin 2)],
          [PrintReading, PrintSkipped [u ''X'', u ''Dev'', u ''abc'']])"
    unfolding post1 by blast
  from t [of "[u ''X'', u ''Dev'']"] len(2)
  have two: "read_rows ([[u ''A'', u ''Dev'', u ''1'']] @ [u ''X'', u ''Dev'']
          # [[u ''B'', u ''Dev'', u ''2'']]) [] [PrintReading]
       = ([(u ''A'', u ''Dev'', Fin 1), (u ''B'', u ''Dev'', Fin 2)], [PrintReading])"
    unfolding post2 by blast
  from len bad one two show ?thesis by blast
qed

subsection \<open>Labels inside the bars\<close>

text \<open>
  Claim C6.  For a parent total other than zero, the turn of the loop for a segment
  draws a label exactly when the hours exceed the parent total times \<open>0.03\<close> and the
  percentage \<open>(hours / parent_total) * 100\<close> exceeds 3; the text of a label is the title,
  cut to its first six characters and \<open>...\<close> when it has more than eight, then \<open>-\<close>, the
  hours, \<open>h\<close>, a newline, the percentage and \<open>%\<close>.
\<close>

theorem segment_label_iff_above_three_percent:
  assumes "parent_total \<noteq> Fin 0"
  shows "\<exists>es. segment i parent_total bottom color_idx (title, hours) = Inr es
    \<and> ((\<exists>y text. SegLabel i y text \<in> set es)
        = (fgt hours (fmul parent_total (rnd (3 / 100)))
           \<and> fgt (fmul (fquot hours parent_total) (Fin 100)) (Fin 3)))
    \<and> (\<forall>j y text. SegLabel j y text \<in> set es \<longrightarrow>
          text = (if 8 < length title then take 6 title @ u ''...'' else title)
                 @ u ''-'' @ fmt1 hours @ u ''h'' @ [10]
                 @ fmt1 (fmul (fquot hours parent_total) (Fin 100)) @ u ''%'')"
  using assms
  by (auto simp: segment_def percent_of_def fdiv_def labelled_def label_text_def short_title_def)

text \<open>Witness for C6: the segment of 50 hours in a parent of 150 hours is labelled.\<close>

theorem segment_label_iff_above_three_percent_witness:
  "Fin 150 \<noteq> Fin 0
   \<and> (\<exists>es. segment 0 (Fin 150) (Fin 100) 1 (u ''B'', Fin 50) = Inr es
         \<and> (\<exists>y text. SegLabel 0 y text \<in> set es))"
proof -
  have ne: "Fin 150 \<noteq> Fin 0" by simp
  have a: "fgt (Fin 50) (fmul (Fin 150) (rnd (3 / 100)))" by code_simp
  have b: "fgt (fmul (fquot (Fin 50) (Fin 150)) (Fin 100)) (Fin 3)" by code_simp
  from segment_label_iff_above_three_percent [OF ne, of 0 "Fin 100" 1 "u ''B''" "Fin 50"] a b ne
  show ?thesis by blast
qed

subsection \<open>Ranking\<close>

text \<open>On floats other than NaN, \<open><\<close> is a strict total order and \<open>>=\<close> its complement.\<close>

lemma flt_irrefl: "\<not> flt a a"
  by (cases a) simp_all

lemma flt_asym: "flt a b \<Longrightarrow> \<not> flt b a"
  by (cases a; cases b) simp_all

lemma flt_trans: "flt a b \<Longrightarrow> flt b c \<Longrightarrow> flt a c"
  by (cases a; cases b; cases c) simp_all

lemma flt_total: "a \<noteq> NaN \<Longrightarrow> b \<noteq> NaN \<Longrightarrow> flt a b \<or> a = b \<or> flt b a"
  by (cases a; cases b) auto

lemma fge_iff: "a \<noteq> NaN \<Longrightarrow> b \<noteq> NaN \<Longrightarrow> fge a b = (\<not> flt a b)"
  using flt_total [of a b] flt_asym [of a b] flt_irrefl [of a]
  by (auto simp: fge_def fgt_def feq_def)

lemma flt_not_fge: "flt a b \<Longrightarrow> \<not> fge a b"
  using flt_asym [of a b] flt_irrefl [of a] by (auto simp: fge_def fgt_def feq_def)

lemma fge_trans:
  "a \<noteq> NaN \<Longrightarrow> b \<noteq> NaN \<Longrightarrow> c \<noteq> NaN \<Longrightarrow> fge a b \<Longrightarrow> fge b c \<Longrightarrow> fge a c"
  using flt_trans [of a c b] flt_total [of b c]
  by (auto simp: fge_iff)

lemma set_insert_desc [simp]: "set (insert_desc key x xs) = insert x (set xs)"
  by (induction xs) auto

lemma set_sorted_rev [simp]: "set (sorted_rev key xs) = set xs"
  by (induction xs) (simp_all add: sorted_rev_def)

lemma length_insert_desc [simp]: "length (insert_desc key x xs) = Suc (length xs)"
  by (induction xs) auto

lemma length_sorted_rev [simp]: "length (sorted_rev key xs) = length xs"
  by (induction xs) (simp_all add: sorted_rev_def)

lemma distinct_insert_desc:
  "distinct (map f (insert_desc key x xs)) = (f x \<notin> f ` set xs \<and> distinct (map f xs))"
  by (induction xs) auto

lemma distinct_sorted_rev [simp]:
  "distinct (map f (sorted_rev key xs)) = distinct (map f xs)"
proof (induction xs)
  case Nil
  show ?case by (simp add: sorted_rev_def)
next
  case (Cons x xs)
  have "sorted_rev key (x # xs) = insert_desc key x (sorted_rev key xs)"
    by (simp add: sorted_rev_def)
  then show ?case using Cons by (simp add: distinct_insert_desc)
qed

lemma sorted_insert_desc:
  assumes "key x \<noteq> NaN" "\<forall>y \<in> set xs. key y \<noteq> NaN"
    and "sorted_wrt (\<lambda>a b. fge (key a) (key b)) xs"
  shows "sorted_wrt (\<lambda>a b. fge (key a) (key b)) (insert_desc key x xs)"
  using assms
proof (induction xs)
  case Nil
  then show ?case by simp
next
  case (Cons y ys)
  show ?case
  proof (cases "flt (key x) (key y)")
    case True
    then have "fge (key y) (key x)" by (simp add: fge_def fgt_def)
    with True Cons show ?thesis by auto
  next
    case False
    with Cons.prems have xy: "fge (key x) (key y)" by (simp add: fge_iff)
    have "fge (key x) (key z)" if "z \<in> set ys" for z
      using fge_trans [of "key x" "key y" "key z"] xy Cons.prems that by auto
    with False xy Cons.prems show ?thesis by auto
  qed
qed

lemma sorted_sorted_rev:
  assumes "\<forall>y \<in> set xs. key y \<noteq> NaN"
  shows "sorted_wrt (\<lambda>a b. fge (key a) (key b)) (sorted_rev key xs)"
  using assms
proof (induction xs)
  case Nil
  show ?case by (simp add: sorted_rev_def)
next
  case (Cons x xs)
  have "sorted_rev key (x # xs) = insert_desc key x (sorted_rev key xs)"
    by (simp add: sorted_rev_def)
  with Cons show ?case by (simp add: sorted_insert_desc)
qed

lemma get_total_in:
  "k \<in> fst ` set d \<Longrightarrow> get_total d k \<in> snd ` set d"
  by (induction d) (auto simp: get_total_def)

lemma nan_rows_load: "read_data_from_csv (Some nan_rows) = ([PrintReading], Inr nan_data)"
  by code_simp

lemma nan_rows_sorted: "sorted_parents (parent_totals_of nan_data) = [u ''P'', u ''Q'']"
  by code_simp

lemma nan_not_ge:
  "\<not> fge (get_total (parent_totals_of nan_data) (u ''P''))
         (get_total (parent_totals_of nan_data) (u ''Q''))"
  by code_simp

lemma not_ge_nan:
  "\<not> fge (get_total (parent_totals_of nan_data) (u ''Q''))
         (get_total (parent_totals_of nan_data) (u ''P''))"
  by code_simp

text \<open>
  Claim C2 fails as stated.  The rows \<open>A,P,nan\<close> and \<open>B,Q,5\<close> load; the parent \<open>P\<close>, whose
  total is NaN, is ranked before \<open>Q\<close>, whose total is 5, and \<open>total(P) >= total(Q)\<close> is
  false.  So is \<open>total(Q) >= total(P)\<close>: no order of the two parents would do.
\<close>

theorem ranking_fails_with_nan_total:
  "read_data_from_csv (Some nan_rows) = ([PrintReading], Inr nan_data)
   \<and> sorted_parents (parent_totals_of nan_data) = [u ''P'', u ''Q'']
   \<and> \<not> fge (get_total (parent_totals_of nan_data) (u ''P''))
            (get_total (parent_totals_of nan_data) (u ''Q''))
   \<and> \<not> fge (get_total (parent_totals_of nan_data) (u ''Q''))
            (get_total (parent_totals_of nan_data) (u ''P''))"
  using nan_rows_load nan_rows_sorted nan_not_ge not_ge_nan by blast

text \<open>
  Claim C2, amended.  For every loaded dataset in which no total of a parent and no
  hours of a task is NaN: a parent that comes before another in \<open>sorted_parents\<close> has a
  total \<open>>=\<close> the other's, and within every parent a task that comes before another in
  \<open>sorted_tasks\<close> has hours \<open>>=\<close> the other's.
\<close>

theorem ranking_descending_without_nan:
  assumes "NaN \<notin> snd ` set (parent_totals_of data)"
    and "\<forall>p. NaN \<notin> snd ` set (get_tasks (parent_data_of data) p)"
  shows "sorted_wrt (\<lambda>a b. fge (get_total (parent_totals_of data) a)
                              (get_total (parent_totals_of data) b))
           (sorted_parents (parent_totals_of data))
    \<and> (\<forall>p. sorted_wrt (\<lambda>t1 t2. fge (snd t1) (snd t2))
              (sorted_tasks (get_tasks (parent_data_of data) p)))"
proof
  have "get_total (parent_totals_of data) k \<noteq> NaN"
    if "k \<in> set (map fst (parent_totals_of data))" for k
  proof -
    from that have "k \<in> fst ` set (parent_totals_of data)" by simp
    then have "get_total (parent_totals_of data) k \<in> snd ` set (parent_totals_of data)"
      by (rule get_total_in)
    with assms(1) show ?thesis by metis
  qed
  then show "sorted_wrt (\<lambda>a b. fge (get_total (parent_totals_of data) a)
                              (get_total (parent_totals_of data) b))
           (sorted_parents (parent_totals_of data))"
    unfolding sorted_parents_def by (intro sorted_sorted_rev) blast
next
  show "\<forall>p. sorted_wrt (\<lambda>t1 t2. fge (snd t1) (snd t2))
              (sorted_tasks (get_tasks (parent_data_of data) p))"
  proof
    fix p
    have "\<forall>y \<in> set (get_tasks (parent_data_of data) p). snd y \<noteq> NaN"
      using assms(2) by (metis imageI)
    then show "sorted_wrt (\<lambda>t1 t2. fge (snd t1) (snd t2))
              (sorted_tasks (get_tasks (parent_data_of data) p))"
      unfolding sorted_tasks_def by (rule sorted_sorted_rev)
  qed
qed

lemma scenario_totals:
  "parent_totals_of scenario_data = [(u ''Dev'', Fin 150), (u ''QA'', Fin 30)]"
  by code_simp

lemma scenario_parent_data:
  "parent_data_of scenario_data =
     [(u ''Dev'', [(u ''A'', Fin 100), (u ''B'', Fin 50)]), (u ''QA'', [(u ''C'', Fin 30)])]"
  by code_simp

text \<open>Witness for C2: the data of the scenario has no NaN, and its ranking descends.\<close>

theorem ranking_descending_without_nan_witness:
  "NaN \<notin> snd ` set (parent_totals_of scenario_data)
   \<and> (\<forall>p. NaN \<notin> snd ` set (get_tasks (parent_data_of scenario_data) p))
   \<and> sorted_wrt (\<lambda>a b. fge (get_total (parent_totals_of scenario_data) a)
                              (get_total (parent_totals_of scenario_data) b))
           (sorted_parents (parent_totals_of scenario_data))
   \<and> (\<forall>p. sorted_wrt (\<lambda>t1 t2. fge (snd t1) (snd t2))
              (sorted_tasks (get_tasks (parent_data_of scenario_data) p)))"
proof -
  have a: "NaN \<notin> snd ` set (parent_totals_of scenario_data)"
    by (simp add: scenario_totals)
  have b: "\<forall>p. NaN \<notin> snd ` set (get_tasks (parent_data_of scenario_data) p)"
    by (auto simp: scenario_parent_data get_tasks_def)
  from ranking_descending_without_nan [OF a b] a b show ?thesis by blast
qed

subsection \<open>The scenario of the specification\<close>

lemma scenario_load:
  "read_data_from_csv (Some scenario_rows) = ([PrintReading], Inr scenario_data)"
  by code_simp

lemma scenario_sorted_parents:
  "sorted_parents (parent_totals_of scenario_data) = [u ''Dev'', u ''QA'']"
  by code_simp

lemma scenario_sorted_tasks:
  "sorted_tasks (get_tasks (parent_data_of scenario_data) (u ''Dev''))
     = [(u ''A'', Fin 100), (u ''B'', Fin 50)]"
  by code_simp

lemma scenario_grand_total:
  "fsum (map snd (parent_totals_of scenario_data)) = Fin 180 \<and> fmt1 (Fin 180) = u ''180.0''"
  by code_simp

lemma scenario_main:
  "main (Some scenario_rows) =
    ([PrintReading, PrintLoaded 3,
      Bar 0 (Fin 100) (Fin 0) 0, SegLabel 0 (Fin 50) (u ''A-100.0h'' @ [10] @ u ''66.7%''),
      Bar 0 (Fin 50) (Fin 100) 1, SegLabel 0 (Fin 125) (u ''B-50.0h'' @ [10] @ u ''33.3%''),
      Bar 1 (Fin 30) (Fin 0) 0, SegLabel 1 (Fin 15) (u ''C-30.0h'' @ [10] @ u ''100.0%''),
      TopLabel 0 (Fin 165) (u ''150.0h'' @ [10] @ u ''(83.3%)''),
      TopLabel 1 (Fin 45) (u ''30.0h'' @ [10] @ u ''(16.7%)''),
      Ylim (Fin (345 / 2)), TotalBox (total_text (Fin 180)), SaveFig,
      PrintHeader (total_text (Fin 180)),
      PrintParent 1 (u ''Dev'') (Fin 150) (Fin (2932031007402667 / 35184372088832)),
      PrintTask (u ''A'') (Fin 100) (Fin (2345624805922133 / 35184372088832)),
      PrintTask (u ''B'') (Fin 50) (Fin (2345624805922133 / 70368744177664)),
      PrintBlank,
      PrintParent 2 (u ''QA'') (Fin 30) (Fin (2345624805922133 / 140737488355328)),
      PrintTask (u ''C'') (Fin 30) (Fin 100), PrintBlank, PrintFooter], Completed)"
  by code_simp

lemma scenario_line:
  "line_text (PrintParent 1 (u ''Dev'') (Fin 150) (Fin (2932031007402667 / 35184372088832)))
     = Some (u ''1. Dev - 150.0'' @ [23567, 26102] @ u '' (83.3%)'')"
  by code_simp

text \<open>
  Claim C7.  The rows \<open>A,Dev,100\<close>, \<open>B,Dev,50\<close> and \<open>C,QA,30\<close> load as three records; the
  totals are 150 for \<open>Dev\<close> and 30 for \<open>QA\<close>; the ranking is \<open>Dev\<close>, \<open>QA\<close>; the tasks of
  \<open>Dev\<close> are ranked \<open>A\<close> (100), \<open>B\<close> (50); the grand total is 180, printed \<open>180.0\<close>; the run
  completes and prints for \<open>Dev\<close> the line of rank 1 whose text is \<open>1. Dev - 150.0\<close>, the
  two characters for hours, and \<open>(83.3%)\<close>.
\<close>

theorem scenario_totals_ranking_and_report_line:
  "read_data_from_csv (Some scenario_rows) = ([PrintReading], Inr scenario_data)
   \<and> parent_totals_of scenario_data = [(u ''Dev'', Fin 150), (u ''QA'', Fin 30)]
   \<and> sorted_parents (parent_totals_of scenario_data) = [u ''Dev'', u ''QA'']
   \<and> sorted_tasks (get_tasks (parent_data_of scenario_data) (u ''Dev''))
       = [(u ''A'', Fin 100), (u ''B'', Fin 50)]
   \<and> fsum (map snd (parent_totals_of scenario_data)) = Fin 180
   \<and> fmt1 (Fin 180) = u ''180.0''
   \<and> snd (main (Some scenario_rows)) = Completed
   \<and> PrintParent 1 (u ''Dev'') (Fin 150) (Fin (2932031007402667 / 35184372088832))
       \<in> set (fst (main (Some scenario_rows)))
   \<and> line_text (PrintParent 1 (u ''Dev'') (Fin 150) (Fin (2932031007402667 / 35184372088832)))
       = Some (u ''1. Dev - 150.0'' @ [23567, 26102] @ u '' (83.3%)'')"
proof -
  have "snd (main (Some scenario_rows)) = Completed"
    and "PrintParent 1 (u ''Dev'') (Fin 150) (Fin (2932031007402667 / 35184372088832))
       \<in> set (fst (main (Some scenario_rows)))"
    unfolding scenario_main by simp_all
  with scenario_load scenario_totals scenario_sorted_parents scenario_sorted_tasks
    scenario_grand_total scenario_line
  show ?thesis by blast
qed

subsection \<open>The report of a parent\<close>

text \<open>The titles of the tasks of a parent are the keys of a dictionary: they are distinct.\<close>

lemma keys_add_hours: "fst ` set (add_hours k hours d) = insert k (fst ` set d)"
proof (induction d)
  case Nil
  show ?case by simp
next
  case (Cons kv d)
  obtain k' v where kv: "kv = (k', v)" by (cases kv)
  show ?case using Cons by (cases "k' = k") (auto simp: kv)
qed

lemma distinct_add_hours:
  "distinct (map fst d) \<Longrightarrow> distinct (map fst (add_hours k hours d))"
proof (induction d)
  case Nil
  show ?case by simp
next
  case (Cons kv d)
  obtain k' v where kv: "kv = (k', v)" by (cases kv)
  show ?case using Cons by (cases "k' = k") (auto simp: kv keys_add_hours)
qed

lemma distinct_add_task:
  "\<forall>(p, tasks) \<in> set d. distinct (map fst tasks) \<Longrightarrow>
   \<forall>(p, tasks) \<in> set (add_task parent title hours d). distinct (map fst tasks)"
proof (induction d)
  case Nil
  show ?case by simp
next
  case (Cons pt d)
  obtain p tasks where pt: "pt = (p, tasks)" by (cases pt)
  show ?case using Cons by (cases "p = parent") (auto simp: pt distinct_add_hours)
qed

lemma distinct_aggregate:
  "\<forall>(p, tasks) \<in> set parent_data. distinct (map fst tasks) \<Longrightarrow>
   \<forall>(p, tasks) \<in> set (fst (aggregate data parent_data parent_totals)).
      distinct (map fst tasks)"
proof (induction data arbitrary: parent_data parent_totals)
  case Nil
  then show ?case by simp
next
  case (Cons r data)
  obtain title parent hours where r: "r = (title, parent, hours)" by (cases r)
  from Cons.prems
  have "\<forall>(p, tasks) \<in> set (add_task parent title hours parent_data). distinct (map fst tasks)"
    by (rule distinct_add_task)
  from Cons.IH [OF this] show ?case by (simp add: r)
qed

lemma distinct_task_titles: "distinct (map fst (get_tasks (parent_data_of data) p))"
proof (cases "map_of (parent_data_of data) p")
  case None
  then show ?thesis by (simp add: get_tasks_def)
next
  case (Some tasks)
  then have "(p, tasks) \<in> set (parent_data_of data)" by (rule map_of_SomeD)
  moreover have "\<forall>(p, tasks) \<in> set (parent_data_of data). distinct (map fst tasks)"
    unfolding parent_data_of_def by (rule distinct_aggregate) simp
  ultimately show ?thesis using Some by (auto simp: get_tasks_def)
qed

lemma report_tasks_events:
  assumes "ptotal \<noteq> Fin 0"
  shows "snd (report_tasks tasks ptotal) = None
    \<and> set (fst (report_tasks tasks ptotal))
        = {PrintTask title hours (fmul (fquot hours ptotal) (Fin 100)) | title hours.
             (title, hours) \<in> set tasks
             \<and> fge (fmul (fquot hours ptotal) (Fin 100)) (Fin 1)}"
proof (induction tasks)
  case Nil
  show ?case by simp
next
  case (Cons task tasks)
  obtain title hours where t: "task = (title, hours)" by (cases task)
  show ?case
    using Cons assms unfolding t
    by (auto simp: percent_of_nonzero)
qed

lemma report_other_events:
  assumes "ptotal \<noteq> Fin 0"
  shows "snd (report_other tasks ptotal) = None
    \<and> (\<forall>e \<in> set (fst (report_other tasks ptotal)).
          \<exists>p. e = PrintOther (length tasks - 5) (fsum (map snd (drop 5 tasks))) p)"
  using assms by (simp add: report_other_def Let_def percent_of_nonzero)

text \<open>
  Claim C10.  In the report of a parent (titles distinct, as \<open>distinct_task_titles\<close>
  shows them to be; parent total and grand total other than zero, so that nothing
  raises): a task
  among the first five of the ranking whose percentage of the parent total is below 1
  has no task line at all, and the only line for other tasks carries the count and the
  sum of the tasks from the sixth on.  So that task's hours are in no line.
\<close>

theorem small_top5_task_is_in_no_line:
  assumes "distinct (map fst tasks)" and "ptotal \<noteq> Fin 0" and "total_hours \<noteq> Fin 0"
    and "(title, hours) \<in> set (take 5 (sorted_tasks tasks))"
    and "flt (fmul (fquot hours ptotal) (Fin 100)) (Fin 1)"
  shows "snd (report_parent i parent tasks ptotal total_hours) = None
    \<and> (\<forall>h p. PrintTask title h p \<notin> set (fst (report_parent i parent tasks ptotal total_hours)))
    \<and> (\<forall>n h p. PrintOther n h p \<in> set (fst (report_parent i parent tasks ptotal total_hours))
          \<longrightarrow> n = length tasks - 5 \<and> h = fsum (map snd (drop 5 (sorted_tasks tasks))))"
proof -
  let ?st = "sorted_tasks tasks"
  let ?rt = "report_tasks (take 5 ?st) ptotal"
  let ?ro = "report_other ?st ptotal"
  have rt: "snd ?rt = None" and ro: "snd ?ro = None"
    using report_tasks_events [OF assms(2)] report_other_events [OF assms(2)] by simp_all
  have ev: "report_parent i parent tasks ptotal total_hours
      = (PrintParent (i + 1) parent ptotal (fmul (fquot ptotal total_hours) (Fin 100))
           # fst ?rt @ fst ?ro @ [PrintBlank], None)"
    using rt ro assms(3)
    by (simp add: report_parent_def percent_of_nonzero andthen_def)
  have dist: "distinct (map fst ?st)"
    using assms(1) by (simp add: sorted_tasks_def)
  have no_task: "PrintTask title h p \<notin> set (fst ?rt)" for h p
  proof
    assume "PrintTask title h p \<in> set (fst ?rt)"
    then have in5: "(title, h) \<in> set (take 5 ?st)"
      and ge: "fge (fmul (fquot h ptotal) (Fin 100)) (Fin 1)"
      using report_tasks_events [OF assms(2), of "take 5 ?st"] by auto
    from in5 assms(4) have "(title, h) \<in> set ?st" "(title, hours) \<in> set ?st"
      by (auto dest: in_set_takeD)
    with dist have "h = hours" by (meson eq_key_imp_eq_value)
    with ge assms(5) flt_not_fge show False by blast
  qed
  have other: "n = length tasks - 5 \<and> h = fsum (map snd (drop 5 ?st))"
    if "PrintOther n h p \<in> set (fst ?ro)" for n h p
    using report_other_events [OF assms(2), of ?st] that
    by (auto simp: sorted_tasks_def)
  have not_other: "PrintOther n h p \<notin> set (fst ?rt)" for n h p
    using report_tasks_events [OF assms(2), of "take 5 ?st"] by auto
  have not_task: "PrintTask t h p \<notin> set (fst ?ro)" for t h p
    using report_other_events [OF assms(2), of ?st] by auto
  show ?thesis
    unfolding ev using no_task other not_other not_task by auto
qed

text \<open>
  Witness for C10: of the tasks \<open>A\<close> (1000 hours) and \<open>B\<close> (1 hour, 0.0999 percent) the
  report shows the parent with 1001 hours and under it the line of \<open>A\<close> only.
\<close>

theorem small_top5_task_is_in_no_line_witness:
  "distinct (map fst small_task_tasks) \<and> Fin 1001 \<noteq> Fin 0
   \<and> (u ''B'', Fin 1) \<in> set (take 5 (sorted_tasks small_task_tasks))
   \<and> flt (fmul (fquot (Fin 1) (Fin 1001)) (Fin 100)) (Fin 1)
   \<and> report_parent 0 (u ''P'') small_task_tasks (Fin 1001) (Fin 1001)
       = ([PrintParent 1 (u ''P'') (Fin 1001) (Fin 100),
           PrintTask (u ''A'') (Fin 1000) (Fin (7029844573193207 / 70368744177664)),
           PrintBlank], None)
   \<and> (\<forall>h p. PrintTask (u ''B'') h p
         \<notin> set (fst (report_parent 0 (u ''P'') small_task_tasks (Fin 1001) (Fin 1001))))"
proof -
  have a: "distinct (map fst small_task_tasks)" by code_simp
  have b: "Fin 1001 \<noteq> Fin 0" by simp
  have c: "(u ''B'', Fin 1) \<in> set (take 5 (sorted_tasks small_task_tasks))"
  proof -
    have "sorted_tasks small_task_tasks = [(u ''A'', Fin 1000), (u ''B'', Fin 1)]"
      by code_simp
    then show ?thesis by simp
  qed
  have d: "flt (fmul (fquot (Fin 1) (Fin 1001)) (Fin 100)) (Fin 1)" by code_simp
  have e: "report_parent 0 (u ''P'') small_task_tasks (Fin 1001) (Fin 1001)
       = ([PrintParent 1 (u ''P'') (Fin 1001) (Fin 100),
           PrintTask (u ''A'') (Fin 1000) (Fin (7029844573193207 / 70368744177664)),
           PrintBlank], None)"
    by code_simp
  from small_top5_task_is_in_no_line [OF a b b c d, of 0 "u ''P''"] a b c d e
  show ?thesis by blast
qed

subsection \<open>The sum of the totals\<close>

text \<open>Whole numbers up to \<open>2 ^ 53\<close> are binary64 numbers, so adding them is exact.\<close>

lemma rdiv_one [simp]: "rdiv n 1 = n"
  by (simp add: rdiv_def)

lemma expo_int: "0 < p \<Longrightarrow> expo p 1 = bitlen p - 1"
proof -
  assume p: "0 < p"
  have b1: "bitlen 1 = 1" by (simp add: bitlen_alt_def)
  from p have ge: "1 \<le> bitlen p" by (simp add: bitlen_ge_iff_power)
  from bitlen_bounds [OF p] have "2 ^ nat (bitlen p - 1) \<le> p" by simp
  with ge show ?thesis by (simp add: expo_def b1)
qed

lemma rnd_of_nat:
  assumes "n \<le> 2 ^ 53"
  shows "rnd (of_nat n) = Fin (of_nat n)"
proof (cases "n = 0")
  case True
  then show ?thesis by (simp add: rnd_def)
next
  case False
  have p: "0 < int n" "int n \<le> 2 ^ 53" using False assms by simp_all
  define d where "d = bitlen (int n) - 1"
  have e: "expo (int n) 1 = d" using p(1) by (simp add: expo_int d_def)
  from p(1) have "1 \<le> bitlen (int n)" by (simp add: bitlen_ge_iff_power)
  then have d0: "0 \<le> d" by (simp add: d_def)
  then have mx: "max d (- 1022) = d" by simp
  have "int n < 2 ^ nat 54" using p(2) by simp
  then have "bitlen (int n) \<le> 54" by (simp add: bitlen_le_iff_power)
  then have d53: "d \<le> 53" by (simp add: d_def)
  show ?thesis
  proof (cases "d \<le> 52")
    case True
    have sc: "(2::rat) ^ nat (52 - d) * pow2 (d - 52) = 1"
      using True by (cases "d = 52") (simp_all add: pow2_def)
    have "rnd (of_nat n) = Fin (of_nat n * (2 ^ nat (52 - d) * pow2 (d - 52)))"
      using False True by (simp add: rnd_def e mx Let_def mult.assoc)
    then show ?thesis by (simp add: sc)
  next
    case False
    with d53 have d: "d = 53" by simp
    from bitlen_bounds [OF p(1)] have "2 ^ nat (bitlen (int n) - 1) \<le> int n" by simp
    then have "2 ^ 53 \<le> int n" using d by (simp add: d_def)
    with p(2) have n53: "int n = 2 ^ 53" by simp
    then have n53': "n = 2 ^ 53" by (metis of_nat_eq_iff of_nat_numeral of_nat_power)
    have m: "rdiv (2 ^ 53) 2 = 2 ^ 52" by (simp add: rdiv_def)
    have e53: "expo 9007199254740992 1 = 53"
      using e d n53 by simp
    have "rnd (of_nat n) = Fin (2 ^ 53)"
      using m by (simp add: rnd_def e53 n53' Let_def pow2_def)
    then show ?thesis by (simp add: n53')
  qed
qed

lemma fadd_nat:
  "a + b \<le> 2 ^ 53 \<Longrightarrow> fadd (Fin (of_nat a)) (Fin (of_nat b)) = Fin (of_nat (a + b))"
  using rnd_of_nat [of "a + b"] by simp

lemma fadd_zero_nat: "b \<le> 2 ^ 53 \<Longrightarrow> fadd (Fin 0) (Fin (of_nat b)) = Fin (of_nat b)"
  using fadd_nat [of 0 b] by simp

lemma foldl_fadd_nat:
  "a + sum_list ns \<le> 2 ^ 53 \<Longrightarrow>
     foldl fadd (Fin (of_nat a)) (map (\<lambda>n. Fin (of_nat n)) ns) = Fin (of_nat (a + sum_list ns))"
proof (induction ns arbitrary: a)
  case Nil
  show ?case by simp
next
  case (Cons n ns)
  from Cons.prems have "a + n \<le> 2 ^ 53" by simp
  then have "fadd (Fin (of_nat a)) (Fin (of_nat n)) = Fin (of_nat (a + n))" by (rule fadd_nat)
  moreover from Cons.prems have "(a + n) + sum_list ns \<le> 2 ^ 53" by simp
  ultimately show ?case using Cons.IH [of "a + n"] by (simp add: add.assoc)
qed

lemma fsum_nat:
  "sum_list ns \<le> 2 ^ 53 \<Longrightarrow> fsum (map (\<lambda>n. Fin (of_nat n)) ns) = Fin (of_nat (sum_list ns))"
  using foldl_fadd_nat [of 0 ns] by (simp add: fsum_def)

lemma add_hours_nat:
  assumes "map snd d = map (\<lambda>n. Fin (of_nat n)) ns" and "sum_list ns + n \<le> 2 ^ 53"
  shows "\<exists>ms. map snd (add_hours k (Fin (of_nat n)) d) = map (\<lambda>n. Fin (of_nat n)) ms
            \<and> sum_list ms = sum_list ns + n"
  using assms
proof (induction d arbitrary: ns)
  case Nil
  then have "n \<le> 2 ^ 53" by simp
  then have "map snd (add_hours k (Fin (of_nat n)) []) = map (\<lambda>n. Fin (of_nat n)) [n]"
    by (simp add: rnd_of_nat)
  moreover from Nil have "sum_list [n] = sum_list ns + n" by simp
  ultimately show ?case by blast
next
  case (Cons kv d)
  obtain k' v where kv: "kv = (k', v)" by (cases kv)
  from Cons.prems(1) obtain n0 ns' where ns: "ns = n0 # ns'" and v: "v = Fin (of_nat n0)"
    and d: "map snd d = map (\<lambda>n. Fin (of_nat n)) ns'"
    unfolding kv by (cases ns) auto
  show ?case
  proof (cases "k' = k")
    case True
    from Cons.prems(2) have "n0 + n \<le> 2 ^ 53" by (simp add: ns)
    then have "fadd v (Fin (of_nat n)) = Fin (of_nat (n0 + n))" unfolding v by (rule fadd_nat)
    then have "map snd (add_hours k (Fin (of_nat n)) (kv # d))
        = map (\<lambda>n. Fin (of_nat n)) ((n0 + n) # ns')"
      using True d by (simp add: kv)
    moreover have "sum_list ((n0 + n) # ns') = sum_list ns + n" by (simp add: ns)
    ultimately show ?thesis by blast
  next
    case False
    from Cons.prems(2) have "sum_list ns' + n \<le> 2 ^ 53" by (simp add: ns)
    from Cons.IH [OF d this] obtain ms
      where ms: "map snd (add_hours k (Fin (of_nat n)) d) = map (\<lambda>n. Fin (of_nat n)) ms"
        and sm: "sum_list ms = sum_list ns' + n" by blast
    have "map snd (add_hours k (Fin (of_nat n)) (kv # d))
        = map (\<lambda>n. Fin (of_nat n)) (n0 # ms)"
      using False ms by (simp add: kv v)
    moreover have "sum_list (n0 # ms) = sum_list ns + n" by (simp add: ns sm)
    ultimately show ?thesis by blast
  qed
qed

lemma aggregate_nat:
  assumes "map snd parent_totals = map (\<lambda>n. Fin (of_nat n)) ns"
    and "sum_list ns + sum_list (map (\<lambda>(title, parent, n). n) nd) \<le> 2 ^ 53"
  shows "\<exists>ms. map snd (snd (aggregate
              (map (\<lambda>(title, parent, n). (title, parent, Fin (of_nat n))) nd)
              parent_data parent_totals))
            = map (\<lambda>n. Fin (of_nat n)) ms
          \<and> sum_list ms = sum_list ns + sum_list (map (\<lambda>(title, parent, n). n) nd)"
  using assms
proof (induction nd arbitrary: parent_data parent_totals ns)
  case Nil
  then show ?case by auto
next
  case (Cons r nd)
  obtain title parent n where r: "r = (title, parent, n)" by (cases r)
  from Cons.prems(2) have le: "sum_list ns + n \<le> 2 ^ 53" by (simp add: r)
  from add_hours_nat [OF Cons.prems(1) le, of parent] obtain ms
    where ms: "map snd (add_hours parent (Fin (of_nat n)) parent_totals)
                 = map (\<lambda>n. Fin (of_nat n)) ms"
      and sm: "sum_list ms = sum_list ns + n" by blast
  from Cons.prems(2)
  have "sum_list ms + sum_list (map (\<lambda>(title, parent, n). n) nd) \<le> 2 ^ 53"
    by (simp add: r sm)
  from Cons.IH [OF ms this] show ?case by (simp add: r sm add.assoc)
qed

text \<open>
  Claim C1, amended.  When the hours of all records are non-negative whole numbers whose
  sum is at most \<open>2 ^ 53\<close>, the sum of the totals of the parents equals the sum of the
  hours of the records, and both are the exact sum.
\<close>

theorem totals_sum_exact_for_whole_hours:
  assumes "data = map (\<lambda>(title, parent, n). (title, parent, Fin (of_nat n))) nd"
    and "sum_list (map (\<lambda>(title, parent, n). n) nd) \<le> 2 ^ 53"
  shows "fsum (map snd (parent_totals_of data)) = fsum (map (\<lambda>(title, parent, hours). hours) data)
    \<and> fsum (map snd (parent_totals_of data))
        = Fin (of_nat (sum_list (map (\<lambda>(title, parent, n). n) nd)))"
proof -
  let ?total = "sum_list (map (\<lambda>(title, parent, n). n) nd)"
  have "map snd [] = map (\<lambda>n. Fin (of_nat n)) []" by simp
  from aggregate_nat [OF this, of nd "[]"] assms(2) obtain ms
    where ms: "map snd (parent_totals_of data) = map (\<lambda>n. Fin (of_nat n)) ms"
      and sm: "sum_list ms = ?total"
    unfolding parent_totals_of_def assms(1) by auto
  have left: "fsum (map snd (parent_totals_of data)) = Fin (of_nat ?total)"
    unfolding ms using fsum_nat [of ms] assms(2) by (simp add: sm)
  have "map (\<lambda>(title, parent, hours). hours) data
      = map (\<lambda>n. Fin (of_nat n)) (map (\<lambda>(title, parent, n). n) nd)"
    unfolding assms(1) by (induction nd) auto
  then have right: "fsum (map (\<lambda>(title, parent, hours). hours) data) = Fin (of_nat ?total)"
    using fsum_nat [OF assms(2)] by simp
  from left right show ?thesis by simp
qed

lemma rounding_load: "read_data_from_csv (Some rounding_rows) = ([PrintReading], Inr rounding_data)"
  by code_simp
lemma rounding_totals: "parent_totals_of rounding_data
    = [(u ''P'', Fin 10000000000000000), (u ''Q'', Fin 2)]"
  by code_simp
lemma rounding_sum_totals: "fsum (map snd (parent_totals_of rounding_data)) = Fin 10000000000000002"
  by code_simp
lemma rounding_sum_hours: "fsum (map (\<lambda>(title, parent, hours). hours) rounding_data) = Fin 10000000000000000"
  by code_simp

text \<open>
  Claim C1 fails as stated.  The rows with the hours \<open>10 ^ 16\<close>, 1, 1 and 1 for the
  parents \<open>P\<close>, \<open>Q\<close>, \<open>Q\<close> and \<open>P\<close> load; the totals are \<open>10 ^ 16\<close> for \<open>P\<close> (adding 1
  to \<open>10 ^ 16\<close> rounds back to it) and 2 for \<open>Q\<close>; their sum is \<open>10 ^ 16 + 2\<close>, the sum of
  the hours in file order is \<open>10 ^ 16\<close>, and the exact sum \<open>10 ^ 16 + 3\<close> is neither.
\<close>

theorem totals_sum_differs_by_rounding:
  "read_data_from_csv (Some rounding_rows) = ([PrintReading], Inr rounding_data)
   \<and> parent_totals_of rounding_data = [(u ''P'', Fin 10000000000000000), (u ''Q'', Fin 2)]
   \<and> fsum (map snd (parent_totals_of rounding_data)) = Fin 10000000000000002
   \<and> fsum (map (\<lambda>(title, parent, hours). hours) rounding_data) = Fin 10000000000000000
   \<and> fsum (map snd (parent_totals_of rounding_data))
       \<noteq> fsum (map (\<lambda>(title, parent, hours). hours) rounding_data)"
  unfolding rounding_sum_totals rounding_sum_hours using rounding_load rounding_totals by simp

text \<open>Witness for C1: the hours of the scenario are 100, 50 and 30.\<close>

theorem totals_sum_exact_for_whole_hours_witness:
  "scenario_data = map (\<lambda>(title, parent, n). (title, parent, Fin (of_nat n)))
       [(u ''A'', u ''Dev'', 100), (u ''B'', u ''Dev'', 50), (u ''C'', u ''QA'', 30)]
   \<and> sum_list (map (\<lambda>(title, parent, n). n)
       [(u ''A'', u ''Dev'', 100::nat), (u ''B'', u ''Dev'', 50), (u ''C'', u ''QA'', 30)]) \<le> 2 ^ 53
   \<and> fsum (map snd (parent_totals_of scenario_data))
       = fsum (map (\<lambda>(title, parent, hours). hours) scenario_data)"
proof -
  have a: "scenario_data = map (\<lambda>(title, parent, n). (title, parent, Fin (of_nat n)))
       [(u ''A'', u ''Dev'', 100), (u ''B'', u ''Dev'', 50), (u ''C'', u ''QA'', 30)]"
    by (simp add: scenario_data_def)
  have b: "sum_list (map (\<lambda>(title, parent, n). n)
       [(u ''A'', u ''Dev'', 100::nat), (u ''B'', u ''Dev'', 50), (u ''C'', u ''QA'', 30)]) \<le> 2 ^ 53"
    by simp
  from totals_sum_exact_for_whole_hours [OF a b] a b show ?thesis by blast
qed


end
